theory Spec2Isabelle
  imports Main "HOL-Library.Sublist"
begin

section \<open>Kubernetes API values read by the listers\<close>

text \<open>
  The listers of \<^verbatim>\<open>pkg/client/informers/externalversions/pipeline/v1/lister.go\<close> read a
  handful of fields of the Tekton and apimachinery types. Only those fields are kept. A Go
  pointer \<^verbatim>\<open>*T\<close> is a \<open>T option\<close> (\<open>None\<close> is \<^verbatim>\<open>nil\<close>), a Go \<^verbatim>\<open>error\<close> is an
  \<open>error option\<close> (\<open>None\<close> is the \<^verbatim>\<open>nil\<close> error).
\<close>

datatype error = NotFound | OtherError string

datatype panic = NilPointerDereference

text \<open>
  Modelled from the spec: \<^verbatim>\<open>metav1.Time\<close> (apimachinery, not part of the sources) is the
  instant at which "a start time has been recorded"; its seconds and nanoseconds are kept.
\<close>

record Time =
  sec :: int
  nsec :: int

text \<open>
  Modelled from the spec: \<^verbatim>\<open>metav1.Time.IsZero\<close> (apimachinery, not part of the sources)
  decides whether "a start time has been recorded". It is true of a nil pointer and of the
  zero instant.
\<close>

definition IsZero :: "Time option \<Rightarrow> bool" where
  "IsZero t = (case t of None \<Rightarrow> True | Some u \<Rightarrow> sec u = 0 \<and> nsec u = 0)"

text \<open>
  Modelled from the spec: an item is a "resource record with an identity (namespace, name)
  and a status field", and a list is an "ordered collection of Items". \<^verbatim>\<open>TaskRun\<close>,
  \<^verbatim>\<open>PipelineRun\<close> and their lists are declared in \<^verbatim>\<open>pkg/apis/pipeline/v1\<close>, which is
  not part of the sources. The fields kept are those the listers read: the name and the
  namespace (\<^verbatim>\<open>GetName()\<close>, \<^verbatim>\<open>GetNamespace()\<close>), \<^verbatim>\<open>Status.StartTime\<close> and
  \<^verbatim>\<open>Items\<close>.
\<close>

record ObjectMeta =
  Name :: string
  Namespace :: string

record TaskRunStatus =
  StartTime :: "Time option"

record TaskRun = ObjectMeta +
  Status :: TaskRunStatus

record TaskRunList =
  Items :: "TaskRun list"

record PipelineRunStatus =
  StartTime :: "Time option"

record PipelineRun = ObjectMeta +
  Status :: PipelineRunStatus

record PipelineRunList =
  Items :: "PipelineRun list"

text \<open>
  Modelled from the spec: \<^verbatim>\<open>metav1.ListOptions\<close> and \<^verbatim>\<open>metav1.GetOptions\<close> are declared in
  apimachinery. The options carry "a version/consistency token" (\<open>ResourceVersion\<close>) next to
  the selectors and paging fields; \<^verbatim>\<open>TimeoutSeconds\<close> is a pointer field.
\<close>

record GetOptions =
  GetResourceVersion :: string

record ListOptions =
  LabelSelector :: string
  FieldSelector :: string
  ResourceVersion :: string
  TimeoutSeconds :: "int option"
  Limit :: int
  Continue :: string

text \<open>
  Modelled from the spec: \<^verbatim>\<open>DeepCopy\<close> (apimachinery) is "clone the original options".
  The clone has the fields of the original and shares nothing with it;
  \<^verbatim>\<open>fetchOrRefreshList\<close> takes its options by value and writes to the clone only.
\<close>

definition DeepCopy :: "ListOptions \<Rightarrow> ListOptions" where
  "DeepCopy opts = opts"

section \<open>The RefreshLister interface\<close>

text \<open>
  \<^verbatim>\<open>RefreshLister[T, L]\<close> is an interface of four methods. A method may read and change
  whatever stands behind the lister (the API server, the counters of the test lister), so
  each one takes the world \<open>'w\<close> and returns it.
\<close>

record ('t, 'l, 'w) RefreshLister =
  List :: "string \<Rightarrow> ListOptions \<Rightarrow> 'w \<Rightarrow> ('l option \<times> error option) \<times> 'w"
  Get :: "string \<Rightarrow> string \<Rightarrow> GetOptions \<Rightarrow> 'w \<Rightarrow> ('t option \<times> error option) \<times> 'w"
  GetItems :: "'l option \<Rightarrow> 'w \<Rightarrow> 't list \<times> 'w"
  StatusIsEmpty :: "'t option \<Rightarrow> 'w \<Rightarrow> bool \<times> 'w"

subsection \<open>TaskRunLister and PipelineRunLister\<close>

text \<open>
  \<^verbatim>\<open>versioned.Interface\<close> is the generated clientset; the two listers use its
  \<^verbatim>\<open>TektonV1().TaskRuns(ns)\<close> and \<^verbatim>\<open>TektonV1().PipelineRuns(ns)\<close> List and Get calls,
  which are taken as given.
\<close>

record 'w Clientset =
  TaskRuns_List :: "string \<Rightarrow> ListOptions \<Rightarrow> 'w \<Rightarrow> (TaskRunList option \<times> error option) \<times> 'w"
  TaskRuns_Get :: "string \<Rightarrow> string \<Rightarrow> GetOptions \<Rightarrow> 'w \<Rightarrow> (TaskRun option \<times> error option) \<times> 'w"
  PipelineRuns_List ::
    "string \<Rightarrow> ListOptions \<Rightarrow> 'w \<Rightarrow> (PipelineRunList option \<times> error option) \<times> 'w"
  PipelineRuns_Get ::
    "string \<Rightarrow> string \<Rightarrow> GetOptions \<Rightarrow> 'w \<Rightarrow> (PipelineRun option \<times> error option) \<times> 'w"

definition TaskRunLister_GetItems :: "TaskRunList option \<Rightarrow> TaskRun list" where
  "TaskRunLister_GetItems list =
     (case list of None \<Rightarrow> [] | Some l \<Rightarrow> TaskRunList.Items l)"

definition TaskRunLister_StatusIsEmpty :: "TaskRun option \<Rightarrow> bool" where
  "TaskRunLister_StatusIsEmpty run =
     (case run of None \<Rightarrow> False
      | Some r \<Rightarrow> IsZero (TaskRunStatus.StartTime (TaskRun.Status r)))"

definition TaskRunLister :: "'w Clientset \<Rightarrow> (TaskRun, TaskRunList, 'w) RefreshLister" where
  "TaskRunLister Client =
     \<lparr> List = (\<lambda>namespace opts. TaskRuns_List Client namespace opts),
       Get = (\<lambda>namespace name opts. TaskRuns_Get Client namespace name opts),
       GetItems = (\<lambda>list w. (TaskRunLister_GetItems list, w)),
       StatusIsEmpty = (\<lambda>run w. (TaskRunLister_StatusIsEmpty run, w)) \<rparr>"

definition PipelineRunLister_GetItems :: "PipelineRunList option \<Rightarrow> PipelineRun list" where
  "PipelineRunLister_GetItems list =
     (case list of None \<Rightarrow> [] | Some l \<Rightarrow> PipelineRunList.Items l)"

definition PipelineRunLister_StatusIsEmpty :: "PipelineRun option \<Rightarrow> bool" where
  "PipelineRunLister_StatusIsEmpty run =
     (case run of None \<Rightarrow> False
      | Some r \<Rightarrow> IsZero (PipelineRunStatus.StartTime (PipelineRun.Status r)))"

definition PipelineRunLister ::
  "'w Clientset \<Rightarrow> (PipelineRun, PipelineRunList, 'w) RefreshLister" where
  "PipelineRunLister Client =
     \<lparr> List = (\<lambda>namespace opts. PipelineRuns_List Client namespace opts),
       Get = (\<lambda>namespace name opts. PipelineRuns_Get Client namespace name opts),
       GetItems = (\<lambda>list w. (PipelineRunLister_GetItems list, w)),
       StatusIsEmpty = (\<lambda>run w. (PipelineRunLister_StatusIsEmpty run, w)) \<rparr>"

section \<open>Calls made through a lister\<close>

text \<open>
  The claims count the \<^verbatim>\<open>List\<close> and \<^verbatim>\<open>Get\<close> calls a function makes. Every such call
  goes through \<open>lister_List\<close> or \<open>lister_Get\<close>, which run the lister's method on the
  world and append the call, with its arguments and its answer, to a log. The lister cannot
  see the log. \<open>GetItems\<close> and \<open>StatusIsEmpty\<close> run on the world and are not logged.
\<close>

datatype ('t, 'l) call =
  ListCall string ListOptions "'l option \<times> error option"
| GetCall string string GetOptions "'t option \<times> error option"

record ('t, 'l, 'w) state =
  world :: 'w
  calls :: "('t, 'l) call list"

definition lister_List ::
  "('t, 'l, 'w) RefreshLister \<Rightarrow> string \<Rightarrow> ListOptions \<Rightarrow> ('t, 'l, 'w) state \<Rightarrow>
     ('l option \<times> error option) \<times> ('t, 'l, 'w) state" where
  "lister_List lister namespace opts s =
     (let (r, w) = List lister namespace opts (world s)
      in (r, \<lparr> world = w, calls = calls s @ [ListCall namespace opts r] \<rparr>))"

definition lister_Get ::
  "('t, 'l, 'w) RefreshLister \<Rightarrow> string \<Rightarrow> string \<Rightarrow> GetOptions \<Rightarrow> ('t, 'l, 'w) state \<Rightarrow>
     ('t option \<times> error option) \<times> ('t, 'l, 'w) state" where
  "lister_Get lister namespace name opts s =
     (let (r, w) = Get lister namespace name opts (world s)
      in (r, \<lparr> world = w, calls = calls s @ [GetCall namespace name opts r] \<rparr>))"

definition lister_GetItems ::
  "('t, 'l, 'w) RefreshLister \<Rightarrow> 'l option \<Rightarrow> ('t, 'l, 'w) state \<Rightarrow>
     't list \<times> ('t, 'l, 'w) state" where
  "lister_GetItems lister list s =
     (let (items, w) = GetItems lister list (world s)
      in (items, \<lparr> world = w, calls = calls s \<rparr>))"

definition lister_StatusIsEmpty ::
  "('t, 'l, 'w) RefreshLister \<Rightarrow> 't option \<Rightarrow> ('t, 'l, 'w) state \<Rightarrow>
     bool \<times> ('t, 'l, 'w) state" where
  "lister_StatusIsEmpty lister item s =
     (let (b, w) = StatusIsEmpty lister item (world s)
      in (b, \<lparr> world = w, calls = calls s \<rparr>))"

section \<open>needRefresh\<close>

text \<open>
  The item type \<^verbatim>\<open>T\<close> is any record that extends \<open>ObjectMeta\<close>: the source asserts
  \<^verbatim>\<open>interface{}(item).(metav1.Object)\<close> and reads the namespace and the name. With a nil
  item that a lister reports as empty, \<^verbatim>\<open>run.GetNamespace()\<close> dereferences nil and the
  function panics. The \<^verbatim>\<open>context.Context\<close> argument is unused.
\<close>

definition needRefresh ::
  "('m ObjectMeta_scheme, 'l, 'w) RefreshLister \<Rightarrow> 'm ObjectMeta_scheme option \<Rightarrow>
     ('m ObjectMeta_scheme, 'l, 'w) state \<Rightarrow>
     panic + ((bool \<times> error option) \<times> ('m ObjectMeta_scheme, 'l, 'w) state)" where
  "needRefresh lister item s =
     (let (isEmpty, s1) = lister_StatusIsEmpty lister item s
      in if \<not> isEmpty then Inr ((False, None), s1)
         else (case item of
                 None \<Rightarrow> Inl NilPointerDereference
               | Some run \<Rightarrow>
                   (let ((item', err), s2) =
                          lister_Get lister (Namespace run) (Name run)
                            \<lparr> GetResourceVersion = [] \<rparr> s1
                    in if err \<noteq> None then Inr ((True, err), s2)
                       else (let (isEmpty', s3) = lister_StatusIsEmpty lister item' s2
                             in Inr ((\<not> isEmpty', None), s3)))))"

section \<open>fetchOrRefreshList\<close>

text \<open>
  \<open>scan\<close> is the \<^verbatim>\<open>for i := range items\<close> loop; its result is \<^verbatim>\<open>refreshNeeded\<close>. The
  loop passes \<^verbatim>\<open>&items[i]\<close>, which is never nil. The \<^verbatim>\<open>logger.Infow\<close> calls write to
  the log sink only and are left out.
\<close>

fun scan ::
  "('m ObjectMeta_scheme, 'l, 'w) RefreshLister \<Rightarrow> 'm ObjectMeta_scheme list \<Rightarrow>
     ('m ObjectMeta_scheme, 'l, 'w) state \<Rightarrow>
     panic + (bool \<times> ('m ObjectMeta_scheme, 'l, 'w) state)" where
  "scan lister [] s = Inr (False, s)"
| "scan lister (item # items) s =
     (case needRefresh lister (Some item) s of
        Inl p \<Rightarrow> Inl p
      | Inr ((refresh, refreshErr), s') \<Rightarrow>
          if refresh \<or> refreshErr \<noteq> None then Inr (True, s')
          else scan lister items s')"

text \<open>
  \<^verbatim>\<open>cacheChecked\<close> is a Go \<^verbatim>\<open>map[string]bool\<close> that the caller has allocated; reading a
  missing key gives \<^verbatim>\<open>false\<close>. The Go function writes into the caller's map, so the model
  returns the map next to the result.
\<close>

type_synonym memo = "string \<rightharpoonup> bool"

definition fetchOrRefreshList ::
  "('m ObjectMeta_scheme, 'l, 'w) RefreshLister \<Rightarrow> string \<Rightarrow> ListOptions \<Rightarrow> memo \<Rightarrow>
     ('m ObjectMeta_scheme, 'l, 'w) state \<Rightarrow>
     panic + ((('l option \<times> error option) \<times> memo) \<times> ('m ObjectMeta_scheme, 'l, 'w) state)" where
  "fetchOrRefreshList lister namespace options cacheChecked s =
     (let ((runs, err), s1) = lister_List lister namespace options s
      in if err \<noteq> None then Inr (((None, err), cacheChecked), s1)
         else if cacheChecked namespace = Some True
         then Inr (((runs, err), cacheChecked), s1)
         else (let (items, s2) = lister_GetItems lister runs s1
               in case scan lister items s2 of
                    Inl p \<Rightarrow> Inl p
                  | Inr (refreshNeeded, s3) \<Rightarrow>
                      (let ((runs', err'), s4) =
                             (if refreshNeeded
                              then lister_List lister namespace
                                     ((DeepCopy options)\<lparr> ResourceVersion := [] \<rparr>) s3
                              else ((runs, err), s3))
                       in Inr (((runs', err'),
                                 (if err' = None then cacheChecked(namespace \<mapsto> True)
                                  else cacheChecked)), s4))))"

text \<open>
  A caller's life: one memo, one lister, any number of calls, each with its own namespace and
  options. The memo and the world left by one call are those the next call starts from.
\<close>

fun fetchOrRefreshList_seq ::
  "('m ObjectMeta_scheme, 'l, 'w) RefreshLister \<Rightarrow> (string \<times> ListOptions) list \<Rightarrow> memo \<Rightarrow>
     ('m ObjectMeta_scheme, 'l, 'w) state \<Rightarrow>
     panic + (memo \<times> ('m ObjectMeta_scheme, 'l, 'w) state)" where
  "fetchOrRefreshList_seq lister [] cacheChecked s = Inr (cacheChecked, s)"
| "fetchOrRefreshList_seq lister ((namespace, options) # rest) cacheChecked s =
     (case fetchOrRefreshList lister namespace options cacheChecked s of
        Inl p \<Rightarrow> Inl p
      | Inr ((r, cacheChecked'), s') \<Rightarrow> fetchOrRefreshList_seq lister rest cacheChecked' s')"

section \<open>Reading the call log\<close>

fun is_List :: "('t, 'l) call \<Rightarrow> bool" where
  "is_List (ListCall namespace opts r) = True"
| "is_List (GetCall namespace name opts r) = False"

fun is_Get :: "('t, 'l) call \<Rightarrow> bool" where
  "is_Get (ListCall namespace opts r) = False"
| "is_Get (GetCall namespace name opts r) = True"

text \<open>\<open>Get_of x c\<close>: the call \<open>c\<close> is the direct \<^verbatim>\<open>Get\<close> that \<open>needRefresh\<close> makes for \<open>x\<close>.\<close>

fun Get_of :: "'m ObjectMeta_scheme \<Rightarrow> ('t, 'l) call \<Rightarrow> bool" where
  "Get_of x (ListCall namespace opts r) = False"
| "Get_of x (GetCall namespace name opts r) =
     (namespace = Namespace x \<and> name = Name x \<and> opts = \<lparr> GetResourceVersion = [] \<rparr>)"

text \<open>The namespace and the options of the \<^verbatim>\<open>List\<close> calls of a log, in order.\<close>

fun List_args :: "('t, 'l) call list \<Rightarrow> (string \<times> ListOptions) list" where
  "List_args [] = []"
| "List_args (ListCall namespace opts r # cs) = (namespace, opts) # List_args cs"
| "List_args (GetCall namespace name opts r # cs) = List_args cs"

text \<open>The error of the last \<^verbatim>\<open>List\<close> call of a log, if the log has one.\<close>

fun last_List_error :: "('t, 'l) call list \<Rightarrow> error option option" where
  "last_List_error [] = None"
| "last_List_error (ListCall namespace opts r # cs) =
     (case last_List_error cs of None \<Rightarrow> Some (snd r) | Some e \<Rightarrow> Some e)"
| "last_List_error (GetCall namespace name opts r # cs) = last_List_error cs"

section \<open>The test lister\<close>

text \<open>
  \<^verbatim>\<open>testLister\<close> of the package's test file answers \<^verbatim>\<open>Get\<close> from a list of canned
  responses and counts the calls of each method. Its fields are the world.
\<close>

record testLister =
  getResponse :: "TaskRun option list"
  getCount :: nat
  listResponse :: "TaskRunList option"
  listCount :: nat
  getItemsCount :: nat
  statusIsEmptyCount :: nat

definition testLister_Get ::
  "string \<Rightarrow> string \<Rightarrow> GetOptions \<Rightarrow> testLister \<Rightarrow> (TaskRun option \<times> error option) \<times> testLister"
  where
  "testLister_Get namespace name opts t =
     ((if getCount t < length (getResponse t) then getResponse t ! getCount t
       else Some \<lparr> Name = [], Namespace = [],
                   TaskRun.Status = \<lparr> TaskRunStatus.StartTime = None \<rparr> \<rparr>,
       None),
      t\<lparr> getCount := getCount t + 1 \<rparr>)"

definition testLister_List ::
  "string \<Rightarrow> ListOptions \<Rightarrow> testLister \<Rightarrow> (TaskRunList option \<times> error option) \<times> testLister"
  where
  "testLister_List namespace opts t =
     ((listResponse t, None), t\<lparr> listCount := listCount t + 1 \<rparr>)"

definition testLister_GetItems ::
  "TaskRunList option \<Rightarrow> testLister \<Rightarrow> TaskRun list \<times> testLister" where
  "testLister_GetItems list t =
     ((case list of None \<Rightarrow> [] | Some l \<Rightarrow> TaskRunList.Items l),
      t\<lparr> getItemsCount := getItemsCount t + 1 \<rparr>)"

definition testLister_StatusIsEmpty :: "TaskRun option \<Rightarrow> testLister \<Rightarrow> bool \<times> testLister" where
  "testLister_StatusIsEmpty run t =
     ((case run of None \<Rightarrow> False
       | Some r \<Rightarrow> IsZero (TaskRunStatus.StartTime (TaskRun.Status r))),
      t\<lparr> statusIsEmptyCount := statusIsEmptyCount t + 1 \<rparr>)"

definition testLister_RefreshLister :: "(TaskRun, TaskRunList, testLister) RefreshLister" where
  "testLister_RefreshLister =
     \<lparr> List = testLister_List, Get = testLister_Get,
       GetItems = testLister_GetItems, StatusIsEmpty = testLister_StatusIsEmpty \<rparr>"

text \<open>
  \<^verbatim>\<open>&testLister{getResponse: g, listResponse: l}\<close>: the counters start at zero.
\<close>

definition testLister_new :: "TaskRun option list \<Rightarrow> TaskRunList option \<Rightarrow> testLister" where
  "testLister_new g l =
     \<lparr> getResponse = g, getCount = 0, listResponse = l, listCount = 0,
       getItemsCount = 0, statusIsEmptyCount = 0 \<rparr>"

text \<open>The fixtures of the test file; \<open>now\<close> is some instant that is not the zero instant.\<close>

definition namespace :: string where
  "namespace = ''ns''"

definition now :: Time where
  "now = \<lparr> sec = 63900000000, nsec = 0 \<rparr>"

definition noStatus :: TaskRun where
  "noStatus =
     \<lparr> Name = ''taskrun1'', Namespace = namespace,
       TaskRun.Status = \<lparr> TaskRunStatus.StartTime = None \<rparr> \<rparr>"

definition hasStatus :: TaskRun where
  "hasStatus =
     \<lparr> Name = ''taskrun2'', Namespace = namespace,
       TaskRun.Status = \<lparr> TaskRunStatus.StartTime = Some now \<rparr> \<rparr>"

definition noStatusItems :: "TaskRun list" where
  "noStatusItems = [noStatus, noStatus]"

definition hasStatusItems :: "TaskRun list" where
  "hasStatusItems = [hasStatus, hasStatus]"

definition ListOptions_zero :: ListOptions where
  "ListOptions_zero =
     \<lparr> LabelSelector = [], FieldSelector = [], ResourceVersion = [],
       TimeoutSeconds = None, Limit = 0, Continue = [] \<rparr>"

section \<open>An API server to run the listers against\<close>

text \<open>
  The test lister never fails. To run \<open>TaskRunLister\<close> where calls fail, this is a small
  API server behind a \<open>Clientset\<close>, in the manner of the generated fake clientset: a
  \<^verbatim>\<open>List\<close> with a resource version is answered from the watch cache and one without from
  the store, a \<^verbatim>\<open>Get\<close> is answered from the store or with not-found, and the server
  answers \<open>quota\<close> more \<^verbatim>\<open>List\<close> requests before it refuses them. It is an example
  world, not part of the package.
\<close>

record apiserver =
  cache :: "TaskRun list"
  etcd :: "TaskRun list"
  quota :: nat

definition fake_TaskRuns_List ::
  "string \<Rightarrow> ListOptions \<Rightarrow> apiserver \<Rightarrow> (TaskRunList option \<times> error option) \<times> apiserver" where
  "fake_TaskRuns_List ns opts w =
     (if quota w = 0 then ((None, Some (OtherError ''too many requests'')), w)
      else ((Some \<lparr> TaskRunList.Items =
                      filter (\<lambda>r. Namespace r = ns)
                        (if ResourceVersion opts = [] then etcd w else cache w) \<rparr>, None),
            w\<lparr> quota := quota w - 1 \<rparr>))"

definition fake_TaskRuns_Get ::
  "string \<Rightarrow> string \<Rightarrow> GetOptions \<Rightarrow> apiserver \<Rightarrow> (TaskRun option \<times> error option) \<times> apiserver"
  where
  "fake_TaskRuns_Get ns name opts w =
     (case find (\<lambda>r. Namespace r = ns \<and> Name r = name) (etcd w) of
        None \<Rightarrow> ((None, Some NotFound), w)
      | Some r \<Rightarrow> ((Some r, None), w))"

definition fakeClientset :: "apiserver Clientset" where
  "fakeClientset =
     \<lparr> TaskRuns_List = fake_TaskRuns_List, TaskRuns_Get = fake_TaskRuns_Get,
       PipelineRuns_List = (\<lambda>ns opts w. ((Some \<lparr> PipelineRunList.Items = [] \<rparr>, None), w)),
       PipelineRuns_Get = (\<lambda>ns name opts w. ((None, Some NotFound), w)) \<rparr>"

text \<open>
  Worlds for the examples. \<open>stale_lister\<close>: the list shows two runs without status and the
  direct \<^verbatim>\<open>Get\<close> shows a status. \<open>stale_lister3\<close>: three listed runs without status, of
  which the first is confirmed by the direct \<^verbatim>\<open>Get\<close> and the second is not. \<open>gone\<close>: the
  watch cache still lists a run that the store no longer has.
\<close>

definition stale_lister :: testLister where
  "stale_lister = testLister_new [Some hasStatus] (Some \<lparr> TaskRunList.Items = noStatusItems \<rparr>)"

definition stale_lister3 :: testLister where
  "stale_lister3 =
     testLister_new [Some noStatus, Some hasStatus]
       (Some \<lparr> TaskRunList.Items = [noStatus, noStatus, noStatus] \<rparr>)"

definition gone :: apiserver where
  "gone = \<lparr> cache = [noStatus], etcd = [], quota = 2 \<rparr>"

text \<open>
  \<open>lister_HitCache\<close>, \<open>lister_MissCacheHasStatus\<close> and \<open>lister_MissCacheNoStatus\<close>
  are the test listers of the three tests of the package. \<open>refusing\<close> is a server that
  refuses every \<^verbatim>\<open>List\<close>.
\<close>

definition lister_HitCache :: testLister where
  "lister_HitCache = testLister_new [Some noStatus] (Some \<lparr> TaskRunList.Items = noStatusItems \<rparr>)"

definition lister_MissCacheHasStatus :: testLister where
  "lister_MissCacheHasStatus =
     testLister_new [Some noStatus, Some hasStatus]
       (Some \<lparr> TaskRunList.Items = hasStatusItems \<rparr>)"

definition lister_MissCacheNoStatus :: testLister where
  "lister_MissCacheNoStatus =
     testLister_new [Some noStatus, Some hasStatus]
       (Some \<lparr> TaskRunList.Items = noStatusItems \<rparr>)"

definition refusing :: apiserver where
  "refusing = \<lparr> cache = [noStatus], etcd = [hasStatus], quota = 0 \<rparr>"

section \<open>What one call does\<close>

text \<open>
  \<open>needRefresh\<close> on an item of the list never panics and logs at most one call, the direct
  \<^verbatim>\<open>Get\<close> for that item. The loop inherits both facts.
\<close>

lemmas testLister_defs =
  testLister_RefreshLister_def testLister_List_def testLister_Get_def testLister_GetItems_def
  testLister_StatusIsEmpty_def testLister_new_def noStatus_def hasStatus_def now_def
  namespace_def IsZero_def noStatusItems_def hasStatusItems_def

lemmas fake_defs =
  TaskRunLister_def TaskRunLister_GetItems_def TaskRunLister_StatusIsEmpty_def
  fakeClientset_def fake_TaskRuns_List_def fake_TaskRuns_Get_def IsZero_def
  noStatus_def hasStatus_def now_def namespace_def

lemma needRefresh_Some_total: "\<exists>r s'. needRefresh lister (Some x) s = Inr (r, s')"
  by (auto simp add: needRefresh_def Let_def split: prod.splits)

lemma needRefresh_calls:
  "needRefresh lister (Some x) s = Inr (r, s') \<Longrightarrow>
     calls s' = calls s \<or> (\<exists>g. calls s' = calls s @ [g] \<and> Get_of x g)"
  unfolding needRefresh_def lister_StatusIsEmpty_def lister_Get_def Let_def
  by (auto split: prod.splits if_splits)

lemma scan_total: "\<exists>b s'. scan lister items s = Inr (b, s')"
proof (induction items arbitrary: s)
  case Nil
  show ?case by auto
next
  case (Cons x xs)
  obtain r e s1 where n: "needRefresh lister (Some x) s = Inr ((r, e), s1)"
    using needRefresh_Some_total [of lister x s] by auto
  show ?case
  proof (cases "r \<or> e \<noteq> None")
    case True
    with n show ?thesis by auto
  next
    case False
    with n Cons.IH [of s1] show ?thesis by auto
  qed
qed

lemma scan_calls:
  "scan lister items s = Inr (b, s') \<Longrightarrow>
     \<exists>gs ys. calls s' = calls s @ gs \<and> subseq ys items \<and> list_all2 Get_of ys gs"
proof (induction items arbitrary: s)
  case Nil
  then have "calls s' = calls s @ [] \<and> subseq [] ([] :: 'a ObjectMeta_scheme list) \<and>
    list_all2 Get_of ([] :: 'a ObjectMeta_scheme list) ([] :: ('a ObjectMeta_scheme, 'b) call list)"
    by simp
  then show ?case by blast
next
  case (Cons x xs)
  obtain r e s1 where n: "needRefresh lister (Some x) s = Inr ((r, e), s1)"
    using needRefresh_Some_total [of lister x s] by auto
  have "\<exists>g0 y0. calls s1 = calls s @ g0 \<and> subseq y0 [x] \<and> list_all2 Get_of y0 g0"
  proof (cases "calls s1 = calls s")
    case True
    then have "calls s1 = calls s @ [] \<and> subseq [] [x] \<and>
      list_all2 Get_of ([] :: 'a ObjectMeta_scheme list) ([] :: ('a ObjectMeta_scheme, 'b) call list)"
      by simp
    then show ?thesis by blast
  next
    case False
    with needRefresh_calls [OF n] obtain g where "calls s1 = calls s @ [g]" "Get_of x g"
      by blast
    then have "calls s1 = calls s @ [g] \<and> subseq [x] [x] \<and> list_all2 Get_of [x] [g]"
      by simp
    then show ?thesis by blast
  qed
  then obtain g0 y0 where g0: "calls s1 = calls s @ g0" "subseq y0 [x]" "list_all2 Get_of y0 g0"
    by blast
  show ?case
  proof (cases "r \<or> e \<noteq> None")
    case True
    with n Cons.prems have "s' = s1" by auto
    moreover have "subseq (y0 @ []) ([x] @ xs)"
      using g0(2) by (intro list_emb_append_mono) simp_all
    then have "subseq y0 (x # xs)" by simp
    ultimately show ?thesis using g0 by blast
  next
    case False
    with n Cons.prems have "scan lister xs s1 = Inr (b, s')" by auto
    from Cons.IH [OF this] obtain gs ys where
      r: "calls s' = calls s1 @ gs" "subseq ys xs" "list_all2 Get_of ys gs" by blast
    have "calls s' = calls s @ (g0 @ gs)" using g0(1) r(1) by simp
    moreover have "subseq (y0 @ ys) ([x] @ xs)" using g0(2) r(2) by (rule list_emb_append_mono)
    then have "subseq (y0 @ ys) (x # xs)" by simp
    moreover have "list_all2 Get_of (y0 @ ys) (g0 @ gs)"
      using g0(3) r(3) by (simp add: list_all2_appendI)
    ultimately show ?thesis by blast
  qed
qed

lemma scan_append_hit:
  "scan lister pre s = Inr (False, s1) \<Longrightarrow> needRefresh lister (Some x) s1 = Inr ((r, e), s2) \<Longrightarrow>
     r \<or> e \<noteq> None \<Longrightarrow> scan lister (pre @ x # post) s = Inr (True, s2)"
proof (induction pre arbitrary: s)
  case Nil
  then show ?case by auto
next
  case (Cons y ys)
  obtain r' e' s' where n: "needRefresh lister (Some y) s = Inr ((r', e'), s')"
    using needRefresh_Some_total [of lister y s] by auto
  with Cons.prems(1) have f: "\<not> (r' \<or> e' \<noteq> None)" and sc: "scan lister ys s' = Inr (False, s1)"
    by (auto split: if_splits)
  from Cons.IH [OF sc Cons.prems(2,3)] n f show ?case by auto
qed


lemma List_args_append: "List_args (xs @ ys) = List_args xs @ List_args ys"
  by (induction xs rule: List_args.induct) simp_all

lemma last_List_error_append:
  "last_List_error (xs @ ys) =
     (case last_List_error ys of None \<Rightarrow> last_List_error xs | Some e \<Rightarrow> Some e)"
  by (induction xs rule: last_List_error.induct) (simp_all split: option.splits)

lemma Get_of_List_args: "list_all2 Get_of ys gs \<Longrightarrow> List_args gs = []"
proof (induction gs arbitrary: ys)
  case Nil
  show ?case by simp
next
  case (Cons g gs)
  then obtain y ys' where "ys = y # ys'" "Get_of y g" "list_all2 Get_of ys' gs"
    by (auto simp: list_all2_Cons2)
  with Cons.IH show ?case by (cases g) simp_all
qed

lemma Get_of_last_List_error: "list_all2 Get_of ys gs \<Longrightarrow> last_List_error gs = None"
proof (induction gs arbitrary: ys)
  case Nil
  show ?case by simp
next
  case (Cons g gs)
  then obtain y ys' where "ys = y # ys'" "Get_of y g" "list_all2 Get_of ys' gs"
    by (auto simp: list_all2_Cons2)
  with Cons.IH show ?case by (cases g) simp_all
qed

lemma fetch_List_failed:
  assumes "List lister ns opts (world s) = ((runs, Some e), w1)"
  shows "fetchOrRefreshList lister ns opts memo s =
    Inr (((None, Some e), memo),
         \<lparr> world = w1, calls = calls s @ [ListCall ns opts (runs, Some e)] \<rparr>)"
  using assms by (simp add: fetchOrRefreshList_def lister_List_def)

lemma fetch_checked:
  assumes "List lister ns opts (world s) = ((runs, None), w1)" and "memo ns = Some True"
  shows "fetchOrRefreshList lister ns opts memo s =
    Inr (((runs, None), memo),
         \<lparr> world = w1, calls = calls s @ [ListCall ns opts (runs, None)] \<rparr>)"
  using assms by (simp add: fetchOrRefreshList_def lister_List_def)

lemma fetch_clean:
  assumes "List lister ns opts (world s) = ((runs, None), w1)" and "memo ns \<noteq> Some True"
    and "GetItems lister runs w1 = (items, w2)"
    and "scan lister items \<lparr> world = w2, calls = calls s @ [ListCall ns opts (runs, None)] \<rparr>
           = Inr (False, s3)"
  shows "fetchOrRefreshList lister ns opts memo s =
    Inr (((runs, None), memo(ns \<mapsto> True)), s3)"
  using assms by (simp add: fetchOrRefreshList_def lister_List_def lister_GetItems_def)

lemma fetch_refresh:
  assumes "List lister ns opts (world s) = ((runs, None), w1)" and "memo ns \<noteq> Some True"
    and "GetItems lister runs w1 = (items, w2)"
    and "scan lister items \<lparr> world = w2, calls = calls s @ [ListCall ns opts (runs, None)] \<rparr>
           = Inr (True, s3)"
    and "List lister ns (opts\<lparr> ResourceVersion := [] \<rparr>) (world s3) = ((runs', err'), w4)"
  shows "fetchOrRefreshList lister ns opts memo s =
    Inr (((runs', err'), (if err' = None then memo(ns \<mapsto> True) else memo)),
         \<lparr> world = w4,
           calls = calls s3 @ [ListCall ns (opts\<lparr> ResourceVersion := [] \<rparr>) (runs', err')] \<rparr>)"
  using assms
  by (simp add: fetchOrRefreshList_def lister_List_def lister_GetItems_def DeepCopy_def)


lemma fetch_summary:
  "\<exists>runs err memo' s' cs.
     fetchOrRefreshList lister ns opts memo s = Inr (((runs, err), memo'), s') \<and>
     calls s' = calls s @ cs \<and>
     (List_args cs = [(ns, opts)] \<or>
      List_args cs = [(ns, opts), (ns, opts\<lparr> ResourceVersion := [] \<rparr>)]) \<and>
     last_List_error cs = Some err \<and>
     memo' = (if err = None then memo(ns \<mapsto> True) else memo)"
proof -
  obtain runs err w1 where l: "List lister ns opts (world s) = ((runs, err), w1)"
    by (metis surj_pair)
  show ?thesis
  proof (cases err)
    case (Some e)
    note f = fetch_List_failed [where memo = memo, OF l [unfolded Some]]
    show ?thesis
    proof (intro exI conjI)
      show "fetchOrRefreshList lister ns opts memo s =
        Inr (((None, Some e), memo),
          \<lparr> world = w1, calls = calls s @ [ListCall ns opts (runs, Some e)] \<rparr>)"
        by (rule f)
      show "calls \<lparr> world = w1, calls = calls s @ [ListCall ns opts (runs, Some e)] \<rparr> =
        calls s @ [ListCall ns opts (runs, Some e)]"
        by simp
    qed simp_all
  next
    case None
    note l' = l [unfolded None]
    show ?thesis
    proof (cases "memo ns = Some True")
      case True
      note f = fetch_checked [where memo = memo, OF l' True]
      show ?thesis
      proof (intro exI conjI)
        show "fetchOrRefreshList lister ns opts memo s =
          Inr (((runs, None), memo),
            \<lparr> world = w1, calls = calls s @ [ListCall ns opts (runs, None)] \<rparr>)"
          by (rule f)
        show "calls \<lparr> world = w1, calls = calls s @ [ListCall ns opts (runs, None)] \<rparr> =
          calls s @ [ListCall ns opts (runs, None)]"
          by simp
        show "memo = (if (None :: error option) = None then memo(ns \<mapsto> True) else memo)"
          using True by (simp add: map_upd_triv)
      qed simp_all
    next
      case False
      obtain items w2 where g: "GetItems lister runs w1 = (items, w2)"
        by (metis surj_pair)
      obtain b s3 where sc:
        "scan lister items \<lparr> world = w2, calls = calls s @ [ListCall ns opts (runs, None)] \<rparr>
           = Inr (b, s3)"
        using scan_total by blast
      from scan_calls [OF sc] obtain gs ys where
        gs: "calls s3 = calls s @ [ListCall ns opts (runs, None)] @ gs" "subseq ys items"
          "list_all2 Get_of ys gs"
        by auto
      have ga: "List_args gs = []" and ge: "last_List_error gs = None"
        using gs(3) by (rule Get_of_List_args, rule Get_of_last_List_error)
      show ?thesis
      proof (cases b)
        case no: False
        with sc have sc': "scan lister items
            \<lparr> world = w2, calls = calls s @ [ListCall ns opts (runs, None)] \<rparr> = Inr (False, s3)"
          by simp
        note f = fetch_clean [where memo = memo, OF l' False g sc']
        show ?thesis
        proof (intro exI conjI)
          show "fetchOrRefreshList lister ns opts memo s =
            Inr (((runs, None), memo(ns \<mapsto> True)), s3)"
            by (rule f)
          show "calls s3 = calls s @ ([ListCall ns opts (runs, None)] @ gs)"
            using gs(1) by simp
        qed (simp_all add: List_args_append last_List_error_append ga ge)
      next
        case yes: True
        with sc have sc': "scan lister items
            \<lparr> world = w2, calls = calls s @ [ListCall ns opts (runs, None)] \<rparr> = Inr (True, s3)"
          by simp
        obtain runs' err' w4 where
          r: "List lister ns (opts\<lparr> ResourceVersion := [] \<rparr>) (world s3) = ((runs', err'), w4)"
          by (metis surj_pair)
        note f = fetch_refresh [where memo = memo, OF l' False g sc' r]
        let ?c = "ListCall ns (opts\<lparr> ResourceVersion := [] \<rparr>) (runs', err')"
        show ?thesis
        proof (intro exI conjI)
          show "fetchOrRefreshList lister ns opts memo s =
            Inr (((runs', err'), (if err' = None then memo(ns \<mapsto> True) else memo)),
              \<lparr> world = w4, calls = calls s3 @ [?c] \<rparr>)"
            by (rule f)
          show "calls \<lparr> world = w4, calls = calls s3 @ [?c] \<rparr> =
            calls s @ ([ListCall ns opts (runs, None)] @ gs @ [?c])"
            using gs(1) by simp
        qed (simp_all add: List_args_append last_List_error_append ga ge)
      qed
    qed
  qed
qed

lemma fetch_memo_step:
  "\<exists>r memo' s'.
     fetchOrRefreshList lister ns opts memo s = Inr ((r, memo'), s') \<and>
     (memo' = memo \<or> memo' = memo(ns \<mapsto> True))"
proof -
  from fetch_summary [of lister ns opts memo s] obtain runs err memo' s' where
    f: "fetchOrRefreshList lister ns opts memo s = Inr (((runs, err), memo'), s')"
    and m: "memo' = (if err = None then memo(ns \<mapsto> True) else memo)"
    by blast
  from m have "memo' = memo \<or> memo' = memo(ns \<mapsto> True)" by simp
  with f show ?thesis by blast
qed

section \<open>The tests of the package\<close>

text \<open>
  \<^verbatim>\<open>TestFetchOrRefreshList_MissCacheHasStatus\<close> and
  \<^verbatim>\<open>TestFetchOrRefreshList_MissCacheNoStatus\<close>, with the counts they expect. The third
  test, \<^verbatim>\<open>TestFetchOrRefreshList_HitCache\<close>, is the example of the checked path below.
\<close>

lemma TestFetchOrRefreshList_MissCacheHasStatus:
  "\<exists>r memo' s'.
     fetchOrRefreshList testLister_RefreshLister namespace ListOptions_zero Map.empty
       \<lparr> world = lister_MissCacheHasStatus, calls = [] \<rparr> = Inr ((r, memo'), s') \<and>
     getCount (world s') = 0 \<and> listCount (world s') = 1 \<and> memo' namespace = Some True"
  by (simp add: fetchOrRefreshList_def needRefresh_def lister_List_def lister_Get_def
      lister_GetItems_def lister_StatusIsEmpty_def DeepCopy_def lister_MissCacheHasStatus_def
      testLister_defs)

lemma TestFetchOrRefreshList_MissCacheNoStatus:
  "\<exists>r memo' s'.
     fetchOrRefreshList testLister_RefreshLister namespace ListOptions_zero Map.empty
       \<lparr> world = lister_MissCacheNoStatus, calls = [] \<rparr> = Inr ((r, memo'), s') \<and>
     getCount (world s') = 2 \<and> listCount (world s') = 2 \<and> memo' namespace = Some True"
  by (simp add: fetchOrRefreshList_def needRefresh_def lister_List_def lister_Get_def
      lister_GetItems_def lister_StatusIsEmpty_def DeepCopy_def lister_MissCacheNoStatus_def
      testLister_defs)

section \<open>The adapters on nil\<close>

text \<open>
  Claim C9. For both adapters, \<^verbatim>\<open>GetItems\<close> of a nil list is the empty sequence: the nil
  guard returns a nil slice and nothing is dereferenced, so the call cannot fail.
\<close>

theorem GetItems_nil:
  "TaskRunLister_GetItems None = [] \<and> PipelineRunLister_GetItems None = [] \<and>
   GetItems (TaskRunLister Client) None w = ([], w) \<and>
   GetItems (PipelineRunLister Client) None w = ([], w)"
  by (simp add: TaskRunLister_GetItems_def PipelineRunLister_GetItems_def TaskRunLister_def
      PipelineRunLister_def)

theorem GetItems_nil_witness:
  "GetItems (TaskRunLister fakeClientset) None \<lparr> cache = [], etcd = [], quota = 0 \<rparr> =
     ([], \<lparr> cache = [], etcd = [], quota = 0 \<rparr>) \<and>
   GetItems (PipelineRunLister fakeClientset) None \<lparr> cache = [], etcd = [], quota = 0 \<rparr> =
     ([], \<lparr> cache = [], etcd = [], quota = 0 \<rparr>)"
  using GetItems_nil [of fakeClientset "\<lparr> cache = [], etcd = [], quota = 0 \<rparr>"] by simp

text \<open>
  Claim C3 says that \<^verbatim>\<open>StatusIsEmpty\<close> of a nil item is true. Both adapters compute
  \<^verbatim>\<open>run != nil && run.Status.StartTime.IsZero()\<close>, which is false on nil: the claim fails
  for each of them.
\<close>

theorem StatusIsEmpty_nil_counterexample:
  "\<not> TaskRunLister_StatusIsEmpty None \<and> \<not> PipelineRunLister_StatusIsEmpty None"
  by (simp add: TaskRunLister_StatusIsEmpty_def PipelineRunLister_StatusIsEmpty_def)


text \<open>
  Claim C3, amended. For both adapters, \<^verbatim>\<open>StatusIsEmpty\<close> of a nil item is false. With
  that, \<open>needRefresh\<close> answers a nil item with \<^verbatim>\<open>(false, nil)\<close> and never reaches the
  dereference of the item.
\<close>

theorem StatusIsEmpty_nil:
  "TaskRunLister_StatusIsEmpty None = False \<and> PipelineRunLister_StatusIsEmpty None = False \<and>
   StatusIsEmpty (TaskRunLister Client) None w = (False, w) \<and>
   StatusIsEmpty (PipelineRunLister Client) None w = (False, w)"
  by (simp add: TaskRunLister_StatusIsEmpty_def PipelineRunLister_StatusIsEmpty_def
      TaskRunLister_def PipelineRunLister_def)

theorem StatusIsEmpty_nil_witness:
  "StatusIsEmpty (TaskRunLister fakeClientset) None \<lparr> cache = [], etcd = [], quota = 0 \<rparr> =
     (False, \<lparr> cache = [], etcd = [], quota = 0 \<rparr>) \<and>
   StatusIsEmpty (PipelineRunLister fakeClientset) None \<lparr> cache = [], etcd = [], quota = 0 \<rparr> =
     (False, \<lparr> cache = [], etcd = [], quota = 0 \<rparr>)"
  using StatusIsEmpty_nil [of fakeClientset "\<lparr> cache = [], etcd = [], quota = 0 \<rparr>"] by simp

section \<open>needRefresh, case by case\<close>

text \<open>
  Claim C2. When \<^verbatim>\<open>StatusIsEmpty(item)\<close> is false (for any item, nil included),
  \<open>needRefresh\<close> returns \<^verbatim>\<open>(false, nil)\<close> and the call log is unchanged: no \<^verbatim>\<open>Get\<close>.
  When it is true of an item \<open>x\<close> and the direct \<^verbatim>\<open>Get\<close> for the namespace and name of
  \<open>x\<close> succeeds with \<open>freshItem\<close>, the result is
  \<^verbatim>\<open>(!StatusIsEmpty(freshItem), nil)\<close>, after exactly that one \<^verbatim>\<open>Get\<close>.
\<close>

theorem needRefresh_result:
  "(StatusIsEmpty lister item (world s) = (False, w1) \<longrightarrow>
      needRefresh lister item s = Inr ((False, None), \<lparr> world = w1, calls = calls s \<rparr>)) \<and>
   (StatusIsEmpty lister (Some x) (world s) = (True, w1') \<longrightarrow>
    Get lister (Namespace x) (Name x) \<lparr> GetResourceVersion = [] \<rparr> w1' =
      ((freshItem, None), w2) \<longrightarrow>
    StatusIsEmpty lister freshItem w2 = (isEmpty, w3) \<longrightarrow>
      needRefresh lister (Some x) s =
        Inr ((\<not> isEmpty, None),
             \<lparr> world = w3,
               calls = calls s @
                 [GetCall (Namespace x) (Name x) \<lparr> GetResourceVersion = [] \<rparr>
                    (freshItem, None)] \<rparr>))"
  by (simp add: needRefresh_def lister_StatusIsEmpty_def lister_Get_def)

theorem needRefresh_result_witness:
  "needRefresh testLister_RefreshLister (Some hasStatus) \<lparr> world = stale_lister, calls = [] \<rparr> =
     Inr ((False, None), \<lparr> world = stale_lister\<lparr> statusIsEmptyCount := 1 \<rparr>, calls = [] \<rparr>) \<and>
   needRefresh testLister_RefreshLister (Some noStatus) \<lparr> world = stale_lister, calls = [] \<rparr> =
     Inr ((True, None),
          \<lparr> world = stale_lister\<lparr> getCount := 1, statusIsEmptyCount := 2 \<rparr>,
            calls = [GetCall ''ns'' ''taskrun1'' \<lparr> GetResourceVersion = [] \<rparr>
                       (Some hasStatus, None)] \<rparr>)"
proof -
  let ?s = "\<lparr> world = stale_lister, calls = [] \<rparr> :: (TaskRun, TaskRunList, testLister) state"
  have h1: "StatusIsEmpty testLister_RefreshLister (Some hasStatus) (world ?s) =
      (False, stale_lister\<lparr> statusIsEmptyCount := 1 \<rparr>)"
    by (simp add: stale_lister_def testLister_defs)
  have h2: "StatusIsEmpty testLister_RefreshLister (Some noStatus) (world ?s) =
      (True, stale_lister\<lparr> statusIsEmptyCount := 1 \<rparr>)"
    by (simp add: stale_lister_def testLister_defs)
  have h3: "Get testLister_RefreshLister (Namespace noStatus) (Name noStatus)
      \<lparr> GetResourceVersion = [] \<rparr> (stale_lister\<lparr> statusIsEmptyCount := 1 \<rparr>) =
      ((Some hasStatus, None), stale_lister\<lparr> getCount := 1, statusIsEmptyCount := 1 \<rparr>)"
    by (simp add: stale_lister_def testLister_defs)
  have h4: "StatusIsEmpty testLister_RefreshLister (Some hasStatus)
      (stale_lister\<lparr> getCount := 1, statusIsEmptyCount := 1 \<rparr>) =
      (False, stale_lister\<lparr> getCount := 1, statusIsEmptyCount := 2 \<rparr>)"
    by (simp add: stale_lister_def testLister_defs)
  have n: "Namespace noStatus = ''ns''" "Name noStatus = ''taskrun1''"
    by (simp_all add: noStatus_def namespace_def)
  from needRefresh_result [where lister = testLister_RefreshLister and s = ?s
      and item = "Some hasStatus" and ?w1.0 = "stale_lister\<lparr> statusIsEmptyCount := 1 \<rparr>"
      and x = noStatus and w1' = "stale_lister\<lparr> statusIsEmptyCount := 1 \<rparr>"
      and freshItem = "Some hasStatus"
      and ?w2.0 = "stale_lister\<lparr> getCount := 1, statusIsEmptyCount := 1 \<rparr>" and isEmpty = False
      and ?w3.0 = "stale_lister\<lparr> getCount := 1, statusIsEmptyCount := 2 \<rparr>"]
    h1 h2 h3 h4 n
  show ?thesis by simp
qed

text \<open>
  Claim C4. When the status of an item \<open>x\<close> is empty and the direct \<^verbatim>\<open>Get\<close> for the
  namespace and name of \<open>x\<close> fails with an error \<open>e\<close>, whichever it is,
  \<open>needRefresh\<close> returns \<^verbatim>\<open>(true, e)\<close>. The example is a not-found error.
\<close>

theorem needRefresh_Get_failed:
  assumes "StatusIsEmpty lister (Some x) (world s) = (True, w1)"
    and "Get lister (Namespace x) (Name x) \<lparr> GetResourceVersion = [] \<rparr> w1 = ((r, Some e), w2)"
  shows "needRefresh lister (Some x) s =
    Inr ((True, Some e),
         \<lparr> world = w2,
           calls = calls s @
             [GetCall (Namespace x) (Name x) \<lparr> GetResourceVersion = [] \<rparr> (r, Some e)] \<rparr>)"
  using assms by (simp add: needRefresh_def lister_StatusIsEmpty_def lister_Get_def)

theorem needRefresh_Get_failed_witness:
  "needRefresh (TaskRunLister fakeClientset) (Some noStatus) \<lparr> world = gone, calls = [] \<rparr> =
     Inr ((True, Some NotFound),
          \<lparr> world = gone,
            calls = [GetCall ''ns'' ''taskrun1'' \<lparr> GetResourceVersion = [] \<rparr>
                       (None, Some NotFound)] \<rparr>)"
proof -
  let ?s = "\<lparr> world = gone, calls = [] \<rparr> :: (TaskRun, TaskRunList, apiserver) state"
  have h1: "StatusIsEmpty (TaskRunLister fakeClientset) (Some noStatus) (world ?s) = (True, gone)"
    by (simp add: gone_def fake_defs)
  have h2: "Get (TaskRunLister fakeClientset) (Namespace noStatus) (Name noStatus)
      \<lparr> GetResourceVersion = [] \<rparr> gone = ((None, Some NotFound), gone)"
    by (simp add: gone_def fake_defs)
  have n: "Namespace noStatus = ''ns''" "Name noStatus = ''taskrun1''"
    by (simp_all add: noStatus_def namespace_def)
  from needRefresh_Get_failed [OF h1 h2] n show ?thesis by simp
qed

section \<open>fetchOrRefreshList, path by path\<close>

text \<open>
  Claim C7. When the memo entry of the namespace is already true, a call makes exactly one
  \<^verbatim>\<open>List\<close> call and no \<^verbatim>\<open>Get\<close> call: the call log grows by that \<^verbatim>\<open>List\<close> alone, there
  is no scan and no refresh, and the memo is as before. The list of that call is returned
  as it is; when the \<^verbatim>\<open>List\<close> fails there is no list to return and the call returns
  \<^verbatim>\<open>nil\<close> with the error of the \<^verbatim>\<open>List\<close>. The example is
  \<^verbatim>\<open>TestFetchOrRefreshList_HitCache\<close>.
\<close>

theorem fetchOrRefreshList_checked:
  assumes "memo ns = Some True"
    and "List lister ns opts (world s) = ((runs, err), w1)"
  shows "fetchOrRefreshList lister ns opts memo s =
    Inr (((if err = None then runs else None, err), memo),
         \<lparr> world = w1, calls = calls s @ [ListCall ns opts (runs, err)] \<rparr>)"
proof (cases err)
  case None
  with assms fetch_checked [where memo = memo and lister = lister and ns = ns and opts = opts
      and s = s and runs = runs and ?w1.0 = w1]
  show ?thesis by simp
next
  case (Some e)
  with assms fetch_List_failed [where memo = memo and lister = lister and ns = ns
      and opts = opts and s = s and runs = runs and ?w1.0 = w1 and e = e]
  show ?thesis by simp
qed

theorem fetchOrRefreshList_checked_witness:
  "fetchOrRefreshList testLister_RefreshLister ''ns'' ListOptions_zero [''ns'' \<mapsto> True]
     \<lparr> world = lister_HitCache, calls = [] \<rparr> =
   Inr (((Some \<lparr> TaskRunList.Items = noStatusItems \<rparr>, None), [''ns'' \<mapsto> True]),
        \<lparr> world = lister_HitCache\<lparr> listCount := 1 \<rparr>,
          calls = [ListCall ''ns'' ListOptions_zero
                     (Some \<lparr> TaskRunList.Items = noStatusItems \<rparr>, None)] \<rparr>)"
proof -
  let ?s = "\<lparr> world = lister_HitCache, calls = [] \<rparr> :: (TaskRun, TaskRunList, testLister) state"
  have h1: "[''ns'' \<mapsto> True] ''ns'' = Some True" by simp
  have h2: "List testLister_RefreshLister ''ns'' ListOptions_zero (world ?s) =
      ((Some \<lparr> TaskRunList.Items = noStatusItems \<rparr>, None), lister_HitCache\<lparr> listCount := 1 \<rparr>)"
    by (simp add: lister_HitCache_def testLister_RefreshLister_def testLister_List_def
        testLister_new_def)
  from fetchOrRefreshList_checked [where memo = "[''ns'' \<mapsto> True]", OF h1 h2]
  show ?thesis by simp
qed

text \<open>
  Claim C1. The namespace is not marked in the memo, the first \<^verbatim>\<open>List\<close> succeeds, and
  \<open>x\<close> is the first item of the list for which \<open>needRefresh\<close> returns true or an
  error (the scan of the items \<open>pre\<close> before it ends without a hit). Then the calls after
  the first \<^verbatim>\<open>List\<close> are \<^verbatim>\<open>Get\<close> calls for items of \<open>pre @ [x]\<close>, in their order, none
  for an item of \<open>post\<close>, followed by exactly one more \<^verbatim>\<open>List\<close> for the same namespace
  with the options of the caller and \<^verbatim>\<open>ResourceVersion\<close> cleared. The list and the error of
  that second \<^verbatim>\<open>List\<close> are the result of the call, and the namespace is marked in the memo
  when it succeeded. In the example the second of three listed runs is the first stale one.
\<close>

theorem fetchOrRefreshList_refresh:
  assumes "memo ns \<noteq> Some True"
    and "List lister ns opts (world s) = ((runs, None), w1)"
    and "GetItems lister runs w1 = (pre @ x # post, w2)"
    and "scan lister pre \<lparr> world = w2, calls = calls s @ [ListCall ns opts (runs, None)] \<rparr> =
           Inr (False, s3)"
    and "needRefresh lister (Some x) s3 = Inr ((refresh, refreshErr), s4)"
    and "refresh \<or> refreshErr \<noteq> None"
    and "List lister ns (opts\<lparr> ResourceVersion := [] \<rparr>) (world s4) = ((runs', err'), w5)"
  shows "fetchOrRefreshList lister ns opts memo s =
      Inr (((runs', err'), (if err' = None then memo(ns \<mapsto> True) else memo)),
           \<lparr> world = w5,
             calls = calls s4 @
               [ListCall ns (opts\<lparr> ResourceVersion := [] \<rparr>) (runs', err')] \<rparr>) \<and>
    (\<exists>gs ys. calls s4 = calls s @ [ListCall ns opts (runs, None)] @ gs \<and>
       subseq ys (pre @ [x]) \<and> list_all2 Get_of ys gs)"
proof
  have "scan lister (pre @ x # post)
      \<lparr> world = w2, calls = calls s @ [ListCall ns opts (runs, None)] \<rparr> = Inr (True, s4)"
    using assms(4,5,6) by (rule scan_append_hit)
  from fetch_refresh [where memo = memo, OF assms(2) assms(1) assms(3) this assms(7)]
  show "fetchOrRefreshList lister ns opts memo s =
      Inr (((runs', err'), (if err' = None then memo(ns \<mapsto> True) else memo)),
           \<lparr> world = w5,
             calls = calls s4 @
               [ListCall ns (opts\<lparr> ResourceVersion := [] \<rparr>) (runs', err')] \<rparr>)" .
  have "scan lister (pre @ x # [])
      \<lparr> world = w2, calls = calls s @ [ListCall ns opts (runs, None)] \<rparr> = Inr (True, s4)"
    using assms(4,5,6) by (rule scan_append_hit)
  from scan_calls [OF this]
  show "\<exists>gs ys. calls s4 = calls s @ [ListCall ns opts (runs, None)] @ gs \<and>
       subseq ys (pre @ [x]) \<and> list_all2 Get_of ys gs"
    by simp
qed

theorem fetchOrRefreshList_refresh_witness:
  "fetchOrRefreshList testLister_RefreshLister ''ns''
     (ListOptions_zero\<lparr> ResourceVersion := ''0'' \<rparr>) Map.empty
     \<lparr> world = stale_lister3, calls = [] \<rparr> =
   Inr (((Some \<lparr> TaskRunList.Items = [noStatus, noStatus, noStatus] \<rparr>, None),
         [''ns'' \<mapsto> True]),
        \<lparr> world = stale_lister3\<lparr> getCount := 2, listCount := 2, getItemsCount := 1,
                   statusIsEmptyCount := 4 \<rparr>,
          calls =
            [ListCall ''ns'' (ListOptions_zero\<lparr> ResourceVersion := ''0'' \<rparr>)
               (Some \<lparr> TaskRunList.Items = [noStatus, noStatus, noStatus] \<rparr>, None),
             GetCall ''ns'' ''taskrun1'' \<lparr> GetResourceVersion = [] \<rparr> (Some noStatus, None),
             GetCall ''ns'' ''taskrun1'' \<lparr> GetResourceVersion = [] \<rparr> (Some hasStatus, None),
             ListCall ''ns'' ListOptions_zero
               (Some \<lparr> TaskRunList.Items = [noStatus, noStatus, noStatus] \<rparr>, None)] \<rparr>)"
proof -
  let ?s = "\<lparr> world = stale_lister3, calls = [] \<rparr> :: (TaskRun, TaskRunList, testLister) state"
  let ?o = "ListOptions_zero\<lparr> ResourceVersion := ''0'' \<rparr>"
  let ?l = "Some \<lparr> TaskRunList.Items = [noStatus, noStatus, noStatus] \<rparr>"
  let ?L = "ListCall ''ns'' ?o (?l, None) :: (TaskRun, TaskRunList) call"
  let ?G1 = "GetCall ''ns'' ''taskrun1'' \<lparr> GetResourceVersion = [] \<rparr> (Some noStatus, None)
    :: (TaskRun, TaskRunList) call"
  let ?G2 = "GetCall ''ns'' ''taskrun1'' \<lparr> GetResourceVersion = [] \<rparr> (Some hasStatus, None)
    :: (TaskRun, TaskRunList) call"
  let ?w1 = "stale_lister3\<lparr> listCount := 1 \<rparr>"
  let ?w2 = "stale_lister3\<lparr> listCount := 1, getItemsCount := 1 \<rparr>"
  let ?s3 = "\<lparr> world = stale_lister3\<lparr> getCount := 1, listCount := 1, getItemsCount := 1,
                 statusIsEmptyCount := 2 \<rparr>, calls = [?L, ?G1] \<rparr>"
  let ?s4 = "\<lparr> world = stale_lister3\<lparr> getCount := 2, listCount := 1, getItemsCount := 1,
                 statusIsEmptyCount := 4 \<rparr>, calls = [?L, ?G1, ?G2] \<rparr>"
  let ?w5 = "stale_lister3\<lparr> getCount := 2, listCount := 2, getItemsCount := 1,
                 statusIsEmptyCount := 4 \<rparr>"
  have h1: "(Map.empty :: memo) ''ns'' \<noteq> Some True" by simp
  have h2: "List testLister_RefreshLister ''ns'' ?o (world ?s) = ((?l, None), ?w1)"
    by (simp add: stale_lister3_def testLister_RefreshLister_def testLister_List_def
        testLister_new_def)
  have h3: "GetItems testLister_RefreshLister ?l ?w1 = ([noStatus] @ noStatus # [noStatus], ?w2)"
    by (simp add: stale_lister3_def testLister_RefreshLister_def testLister_GetItems_def
        testLister_new_def)
  have h4: "scan testLister_RefreshLister [noStatus]
      \<lparr> world = ?w2, calls = calls ?s @ [?L] \<rparr> = Inr (False, ?s3)"
    by (simp add: stale_lister3_def needRefresh_def lister_StatusIsEmpty_def lister_Get_def
        testLister_defs)
  have h5: "needRefresh testLister_RefreshLister (Some noStatus) ?s3 = Inr ((True, None), ?s4)"
    by (simp add: stale_lister3_def needRefresh_def lister_StatusIsEmpty_def lister_Get_def
        testLister_defs)
  have h6: "True \<or> (None :: error option) \<noteq> None" by simp
  have h7: "List testLister_RefreshLister ''ns'' (?o\<lparr> ResourceVersion := [] \<rparr>) (world ?s4) =
      ((?l, None), ?w5)"
    by (simp add: stale_lister3_def testLister_RefreshLister_def testLister_List_def
        testLister_new_def)
  have z: "?o\<lparr> ResourceVersion := [] \<rparr> = ListOptions_zero"
    by (simp add: ListOptions_zero_def)
  from fetchOrRefreshList_refresh [where memo = Map.empty and post = "[noStatus]",
      OF h1 h2 h3 h4 h5 h6 h7] z
  show ?thesis by simp
qed

text \<open>
  Claim C5. Whatever the direct \<^verbatim>\<open>Get\<close> calls of the scan answer, a call of
  \<open>fetchOrRefreshList\<close> returns, and the error it returns is the error (possibly
  \<^verbatim>\<open>nil\<close>) of the last \<^verbatim>\<open>List\<close> call in its log. In the example the direct
  \<^verbatim>\<open>Get\<close> fails with not-found, which triggers the second \<^verbatim>\<open>List\<close>; that one succeeds
  and the call returns no error.
\<close>

theorem fetchOrRefreshList_error_is_last_List:
  "\<exists>runs err memo' s'.
     fetchOrRefreshList lister ns opts memo s = Inr (((runs, err), memo'), s') \<and>
     last_List_error (calls s') = Some err"
proof -
  from fetch_summary [of lister ns opts memo s] obtain runs err memo' s' cs where
    "fetchOrRefreshList lister ns opts memo s = Inr (((runs, err), memo'), s')"
    "calls s' = calls s @ cs" "last_List_error cs = Some err"
    by blast
  then show ?thesis by (simp add: last_List_error_append)
qed

theorem fetchOrRefreshList_error_is_last_List_witness:
  "(\<exists>runs err memo' s'.
      fetchOrRefreshList (TaskRunLister fakeClientset) ''ns''
        (ListOptions_zero\<lparr> ResourceVersion := ''0'' \<rparr>) Map.empty
        \<lparr> world = gone, calls = [] \<rparr> = Inr (((runs, err), memo'), s') \<and>
      last_List_error (calls s') = Some err) \<and>
   (\<exists>memo' w'.
      fetchOrRefreshList (TaskRunLister fakeClientset) ''ns''
        (ListOptions_zero\<lparr> ResourceVersion := ''0'' \<rparr>) Map.empty
        \<lparr> world = gone, calls = [] \<rparr> =
      Inr (((Some \<lparr> TaskRunList.Items = [] \<rparr>, None), memo'),
           \<lparr> world = w',
             calls =
               [ListCall ''ns'' (ListOptions_zero\<lparr> ResourceVersion := ''0'' \<rparr>)
                  (Some \<lparr> TaskRunList.Items = [noStatus] \<rparr>, None),
                GetCall ''ns'' ''taskrun1'' \<lparr> GetResourceVersion = [] \<rparr> (None, Some NotFound),
                ListCall ''ns'' ListOptions_zero (Some \<lparr> TaskRunList.Items = [] \<rparr>, None)] \<rparr>))"
  using fetchOrRefreshList_error_is_last_List [of "TaskRunLister fakeClientset" "''ns''"
      "ListOptions_zero\<lparr> ResourceVersion := ''0'' \<rparr>" Map.empty
      "\<lparr> world = gone, calls = [] \<rparr>"]
  by (simp add: fetchOrRefreshList_def needRefresh_def lister_List_def lister_Get_def
      lister_GetItems_def lister_StatusIsEmpty_def DeepCopy_def gone_def ListOptions_zero_def
      fake_defs)

text \<open>
  Claim C6. After a call the memo is the memo before the call with the namespace set to true
  if the last \<^verbatim>\<open>List\<close> of the call returned no error, and it is the memo before the call,
  unchanged, if that \<^verbatim>\<open>List\<close> failed; the error of that \<^verbatim>\<open>List\<close> is the error returned.
  When the first \<^verbatim>\<open>List\<close> fails with \<open>e\<close> the call returns \<open>e\<close> at once: the memo is
  unchanged and the log has grown by that \<^verbatim>\<open>List\<close> only, so there is no \<^verbatim>\<open>Get\<close>.
\<close>

theorem fetchOrRefreshList_memo:
  "(\<exists>runs err memo' s'.
      fetchOrRefreshList lister ns opts memo s = Inr (((runs, err), memo'), s') \<and>
      last_List_error (calls s') = Some err \<and>
      memo' = (if err = None then memo(ns \<mapsto> True) else memo)) \<and>
   (List lister ns opts (world s) = ((r, Some e), w1) \<longrightarrow>
      fetchOrRefreshList lister ns opts memo s =
        Inr (((None, Some e), memo),
             \<lparr> world = w1, calls = calls s @ [ListCall ns opts (r, Some e)] \<rparr>))"
proof
  from fetch_summary [of lister ns opts memo s] obtain runs err memo' s' cs where
    "fetchOrRefreshList lister ns opts memo s = Inr (((runs, err), memo'), s')"
    "calls s' = calls s @ cs" "last_List_error cs = Some err"
    "memo' = (if err = None then memo(ns \<mapsto> True) else memo)"
    by blast
  then show "\<exists>runs err memo' s'.
      fetchOrRefreshList lister ns opts memo s = Inr (((runs, err), memo'), s') \<and>
      last_List_error (calls s') = Some err \<and>
      memo' = (if err = None then memo(ns \<mapsto> True) else memo)"
    by (simp add: last_List_error_append)
  show "List lister ns opts (world s) = ((r, Some e), w1) \<longrightarrow>
      fetchOrRefreshList lister ns opts memo s =
        Inr (((None, Some e), memo),
             \<lparr> world = w1, calls = calls s @ [ListCall ns opts (r, Some e)] \<rparr>)"
  proof
    assume "List lister ns opts (world s) = ((r, Some e), w1)"
    from fetch_List_failed [where memo = memo, OF this]
    show "fetchOrRefreshList lister ns opts memo s =
        Inr (((None, Some e), memo),
             \<lparr> world = w1, calls = calls s @ [ListCall ns opts (r, Some e)] \<rparr>)" .
  qed
qed

theorem fetchOrRefreshList_memo_witness:
  "fetchOrRefreshList (TaskRunLister fakeClientset) ''ns'' ListOptions_zero Map.empty
     \<lparr> world = refusing, calls = [] \<rparr> =
   Inr (((None, Some (OtherError ''too many requests'')), Map.empty),
        \<lparr> world = refusing,
          calls = [ListCall ''ns'' ListOptions_zero
                     (None, Some (OtherError ''too many requests''))] \<rparr>)"
proof -
  let ?s = "\<lparr> world = refusing, calls = [] \<rparr> :: (TaskRun, TaskRunList, apiserver) state"
  have h: "List (TaskRunLister fakeClientset) ''ns'' ListOptions_zero (world ?s) =
      ((None, Some (OtherError ''too many requests'')), refusing)"
    by (simp add: refusing_def fake_defs)
  from fetchOrRefreshList_memo [where memo = Map.empty and lister = "TaskRunLister fakeClientset"
      and ns = "''ns''" and opts = ListOptions_zero and s = ?s and r = None
      and e = "OtherError ''too many requests''" and ?w1.0 = refusing] h
  show ?thesis by simp
qed

text \<open>
  Claim C10. A call for the namespace \<open>ns\<close> leaves the memo entry of every other namespace
  as it was. The options of the caller reach the first \<^verbatim>\<open>List\<close> as they are, and the
  second \<^verbatim>\<open>List\<close>, if there is one, gets a copy that differs from them in
  \<^verbatim>\<open>ResourceVersion\<close> only, which is cleared; there is no other \<^verbatim>\<open>List\<close>. In the
  example the entry of the namespace \<^verbatim>\<open>other\<close>, which is false, stays false.
\<close>

theorem fetchOrRefreshList_frame:
  "\<exists>runs err memo' s' cs.
     fetchOrRefreshList lister ns opts memo s = Inr (((runs, err), memo'), s') \<and>
     (\<forall>k. k \<noteq> ns \<longrightarrow> memo' k = memo k) \<and>
     calls s' = calls s @ cs \<and>
     (List_args cs = [(ns, opts)] \<or>
      List_args cs = [(ns, opts), (ns, opts\<lparr> ResourceVersion := [] \<rparr>)])"
proof -
  from fetch_summary [of lister ns opts memo s] obtain runs err memo' s' cs where
    f: "fetchOrRefreshList lister ns opts memo s = Inr (((runs, err), memo'), s')"
    "calls s' = calls s @ cs"
    "List_args cs = [(ns, opts)] \<or>
      List_args cs = [(ns, opts), (ns, opts\<lparr> ResourceVersion := [] \<rparr>)]"
    "memo' = (if err = None then memo(ns \<mapsto> True) else memo)"
    by blast
  from f(4) have "\<forall>k. k \<noteq> ns \<longrightarrow> memo' k = memo k" by simp
  with f(1,2,3) show ?thesis by blast
qed

theorem fetchOrRefreshList_frame_witness:
  "fetchOrRefreshList (TaskRunLister fakeClientset) ''ns''
     (ListOptions_zero\<lparr> ResourceVersion := ''0'' \<rparr>) [''other'' \<mapsto> False]
     \<lparr> world = gone, calls = [] \<rparr> =
   Inr (((Some \<lparr> TaskRunList.Items = [] \<rparr>, None), [''other'' \<mapsto> False, ''ns'' \<mapsto> True]),
        \<lparr> world = gone\<lparr> quota := 0 \<rparr>,
          calls =
            [ListCall ''ns'' (ListOptions_zero\<lparr> ResourceVersion := ''0'' \<rparr>)
               (Some \<lparr> TaskRunList.Items = [noStatus] \<rparr>, None),
             GetCall ''ns'' ''taskrun1'' \<lparr> GetResourceVersion = [] \<rparr> (None, Some NotFound),
             ListCall ''ns'' ListOptions_zero (Some \<lparr> TaskRunList.Items = [] \<rparr>, None)] \<rparr>)"
  using fetchOrRefreshList_frame [of "TaskRunLister fakeClientset" "''ns''"
      "ListOptions_zero\<lparr> ResourceVersion := ''0'' \<rparr>" "[''other'' \<mapsto> False]"
      "\<lparr> world = gone, calls = [] \<rparr>"]
  by (simp add: fetchOrRefreshList_def needRefresh_def lister_List_def lister_Get_def
      lister_GetItems_def lister_StatusIsEmpty_def DeepCopy_def gone_def ListOptions_zero_def
      fake_defs)

section \<open>The memo over a caller's life\<close>

text \<open>
  Claim C8. The memo is monotonic over any sequence of calls, for any namespaces and options
  and whatever the calls return: every call of the sequence returns, a namespace whose entry
  is true before the sequence has a true entry after it, no entry is false after the sequence
  that was not false before it, and no entry is deleted. In the example the third call fails
  and the entry of \<^verbatim>\<open>ns\<close> is still true.
\<close>

theorem fetchOrRefreshList_seq_memo_monotonic:
  "\<exists>memo' s'.
     fetchOrRefreshList_seq lister reqs memo s = Inr (memo', s') \<and>
     (\<forall>k. memo k = Some True \<longrightarrow> memo' k = Some True) \<and>
     (\<forall>k. memo' k = Some False \<longrightarrow> memo k = Some False) \<and>
     dom memo \<subseteq> dom memo'"
proof (induction reqs arbitrary: memo s)
  case Nil
  show ?case by simp
next
  case (Cons req rest)
  obtain ns opts where req: "req = (ns, opts)" by (cases req)
  from fetch_memo_step [of lister ns opts memo s] obtain r memo1 s1 where
    f: "fetchOrRefreshList lister ns opts memo s = Inr ((r, memo1), s1)"
    and m: "memo1 = memo \<or> memo1 = memo(ns \<mapsto> True)"
    by blast
  from Cons.IH [of memo1 s1] obtain memo' s' where
    q: "fetchOrRefreshList_seq lister rest memo1 s1 = Inr (memo', s')"
    and t: "\<forall>k. memo1 k = Some True \<longrightarrow> memo' k = Some True"
    and n: "\<forall>k. memo' k = Some False \<longrightarrow> memo1 k = Some False"
    and d: "dom memo1 \<subseteq> dom memo'"
    by blast
  have q': "fetchOrRefreshList_seq lister (req # rest) memo s = Inr (memo', s')"
    using req f q by simp
  have t': "\<forall>k. memo k = Some True \<longrightarrow> memo' k = Some True"
    using m t by auto
  have n': "\<forall>k. memo' k = Some False \<longrightarrow> memo k = Some False"
  proof (intro allI impI)
    fix k
    assume "memo' k = Some False"
    with n have "memo1 k = Some False" by simp
    with m show "memo k = Some False" by (auto split: if_splits)
  qed
  from m have "dom memo \<subseteq> dom memo1" by auto
  with d have d': "dom memo \<subseteq> dom memo'" by (rule subset_trans [rotated])
  from q' t' n' d' show ?case by blast
qed

theorem fetchOrRefreshList_seq_memo_monotonic_witness:
  "fetchOrRefreshList_seq (TaskRunLister fakeClientset)
     [(''ns'', ListOptions_zero), (''other'', ListOptions_zero\<lparr> ResourceVersion := ''0'' \<rparr>),
      (''ns'', ListOptions_zero)]
     [''ns'' \<mapsto> True] \<lparr> world = gone, calls = [] \<rparr> =
   Inr ([''ns'' \<mapsto> True, ''other'' \<mapsto> True],
        \<lparr> world = gone\<lparr> quota := 0 \<rparr>,
          calls =
            [ListCall ''ns'' ListOptions_zero (Some \<lparr> TaskRunList.Items = [] \<rparr>, None),
             ListCall ''other'' (ListOptions_zero\<lparr> ResourceVersion := ''0'' \<rparr>)
               (Some \<lparr> TaskRunList.Items = [] \<rparr>, None),
             ListCall ''ns'' ListOptions_zero
               (None, Some (OtherError ''too many requests''))] \<rparr>)"
  using fetchOrRefreshList_seq_memo_monotonic [of "TaskRunLister fakeClientset"
      "[(''ns'', ListOptions_zero), (''other'', ListOptions_zero\<lparr> ResourceVersion := ''0'' \<rparr>),
        (''ns'', ListOptions_zero)]"
      "[''ns'' \<mapsto> True]" "\<lparr> world = gone, calls = [] \<rparr>"]
  by (simp add: fetchOrRefreshList_def needRefresh_def lister_List_def lister_Get_def
      lister_GetItems_def lister_StatusIsEmpty_def DeepCopy_def gone_def ListOptions_zero_def
      fake_defs)

end
